theory Spec2Isabelle
  imports Complex_Main "HOL-Library.Log_Nat"
begin

section \<open>AutoFoundr: the mock generator and the proxy route\<close>

text \<open>
  The scaffold holds two programs: \<^verbatim>\<open>backend/main.py\<close>, a FastAPI service whose
  \<^verbatim>\<open>generate\<close> endpoint builds a brand, a product and three ads from a phrase with
  the helpers \<^verbatim>\<open>mock_brand_name\<close>, \<^verbatim>\<open>mock_logo_url\<close>, \<^verbatim>\<open>mock_title\<close>,
  \<^verbatim>\<open>mock_description\<close>, \<^verbatim>\<open>mock_price\<close> and \<^verbatim>\<open>mock_ads\<close>; and
  \<^verbatim>\<open>frontend/pages/api/generate.js\<close>, a Next.js route whose \<^verbatim>\<open>handler\<close> relays a
  request to that service.
\<close>

subsection \<open>Python strings\<close>

text \<open>
  A Python \<^verbatim>\<open>str\<close> is a sequence of Unicode code points; indexing, slicing and
  \<^verbatim>\<open>len\<close> count code points. A string is therefore a list of code points, and the
  ASCII literals of the source are written with \<open>lit\<close>.
\<close>

type_synonym pystr = "nat list"

definition lit :: "string \<Rightarrow> pystr" where
  "lit s = map of_char s"

text \<open>The em dash of the title and of the first ad template, U+2014.\<close>

definition em_dash :: pystr where
  "em_dash = [0x2014]"

datatype error = IndexError

text \<open>
  \<^verbatim>\<open>str.isspace\<close> for one code point, which is also the separator test of
  \<^verbatim>\<open>str.split()\<close>: the code points of bidirectional class WS, B or S and of category Zs.
\<close>

definition isspace :: "nat \<Rightarrow> bool" where
  "isspace c \<longleftrightarrow>
     (0x9 \<le> c \<and> c \<le> 0xD) \<or> (0x1C \<le> c \<and> c \<le> 0x20) \<or> c = 0x85 \<or> c = 0xA0 \<or>
     c = 0x1680 \<or> (0x2000 \<le> c \<and> c \<le> 0x200A) \<or> c = 0x2028 \<or> c = 0x2029 \<or>
     c = 0x202F \<or> c = 0x205F \<or> c = 0x3000"

text \<open>
  \<^verbatim>\<open>s.split()\<close> with no argument: skip a run of whitespace, stop at the end of the
  string, otherwise cut the token that runs to the next whitespace, and go on behind it.
  Leading and trailing whitespace give no empty token.
\<close>

function split_str :: "pystr \<Rightarrow> pystr list" where
  "split_str s =
     (case dropWhile isspace s of
        [] \<Rightarrow> []
      | c # cs \<Rightarrow>
          (c # takeWhile (\<lambda>x. \<not> isspace x) cs) # split_str (dropWhile (\<lambda>x. \<not> isspace x) cs))"
  by pat_completeness auto
termination
proof (relation "measure length")
  show "wf (measure (length :: pystr \<Rightarrow> nat))"
    by simp
next
  fix s :: pystr and c cs
  assume rest: "dropWhile isspace s = c # cs"
  have "length (dropWhile (\<lambda>x. \<not> isspace x) cs) \<le> length cs"
    by (rule length_dropWhile_le)
  moreover have "length (c # cs) \<le> length s"
    using length_dropWhile_le [of isspace s] rest by simp
  ultimately show "(dropWhile (\<lambda>x. \<not> isspace x) cs, s) \<in> measure length"
    by simp
qed

declare split_str.simps [simp del]

text \<open>
  \<^verbatim>\<open>xs[i]\<close> for an index that is not negative: out of range it raises
  \<^verbatim>\<open>IndexError\<close>.
\<close>

definition getitem :: "'a list \<Rightarrow> nat \<Rightarrow> error + 'a" where
  "getitem xs i = (if i < length xs then Inr (xs ! i) else Inl IndexError)"

text \<open>
  \<^verbatim>\<open>str.capitalize\<close> works with the Unicode character database of the Python
  runtime: the full title-case and lower-case mappings of a code point (a mapping may give
  several code points) and the properties Cased and Case_Ignorable. The database is not
  part of the repository and grows with the version of the runtime, so it is a parameter.
  Its rows for the code points below U+0100 are the same in every version and are written
  out here; a database supplies the rows from U+0100 on.
\<close>

record unicode_db =
  totitle :: "nat \<Rightarrow> pystr"
  tolower :: "nat \<Rightarrow> pystr"
  cased :: "nat \<Rightarrow> bool"
  case_ignorable :: "nat \<Rightarrow> bool"

definition latin1_totitle :: "nat \<Rightarrow> pystr" where
  "latin1_totitle c =
     (if (0x61 \<le> c \<and> c \<le> 0x7A) \<or> (0xE0 \<le> c \<and> c \<le> 0xF6) \<or> (0xF8 \<le> c \<and> c \<le> 0xFE)
      then [c - 0x20]
      else if c = 0xB5 then [0x39C]
      else if c = 0xDF then [0x53, 0x73]
      else if c = 0xFF then [0x178]
      else [c])"

definition latin1_tolower :: "nat \<Rightarrow> pystr" where
  "latin1_tolower c =
     (if (0x41 \<le> c \<and> c \<le> 0x5A) \<or> (0xC0 \<le> c \<and> c \<le> 0xD6) \<or> (0xD8 \<le> c \<and> c \<le> 0xDE)
      then [c + 0x20]
      else [c])"

definition latin1_cased :: "nat \<Rightarrow> bool" where
  "latin1_cased c \<longleftrightarrow>
     (0x41 \<le> c \<and> c \<le> 0x5A) \<or> (0x61 \<le> c \<and> c \<le> 0x7A) \<or> c = 0xAA \<or> c = 0xB5 \<or>
     c = 0xBA \<or> (0xC0 \<le> c \<and> c \<le> 0xD6) \<or> (0xD8 \<le> c \<and> c \<le> 0xF6) \<or>
     (0xF8 \<le> c \<and> c \<le> 0xFF)"

definition latin1_case_ignorable :: "nat \<Rightarrow> bool" where
  "latin1_case_ignorable c \<longleftrightarrow>
     c = 0x27 \<or> c = 0x2E \<or> c = 0x3A \<or> c = 0x5E \<or> c = 0x60 \<or> c = 0xA8 \<or> c = 0xAD \<or>
     c = 0xAF \<or> c = 0xB4 \<or> c = 0xB7 \<or> c = 0xB8"

definition to_title_full :: "unicode_db \<Rightarrow> nat \<Rightarrow> pystr" where
  "to_title_full db c = (if c < 0x100 then latin1_totitle c else totitle db c)"

definition to_lower_full :: "unicode_db \<Rightarrow> nat \<Rightarrow> pystr" where
  "to_lower_full db c = (if c < 0x100 then latin1_tolower c else tolower db c)"

definition is_cased :: "unicode_db \<Rightarrow> nat \<Rightarrow> bool" where
  "is_cased db c = (if c < 0x100 then latin1_cased c else cased db c)"

definition is_case_ignorable :: "unicode_db \<Rightarrow> nat \<Rightarrow> bool" where
  "is_case_ignorable db c = (if c < 0x100 then latin1_case_ignorable c else case_ignorable db c)"

text \<open>
  A database without any cased letter from U+0100 on, for evaluating the functions on text
  in Latin-1.
\<close>

definition latin1_db :: unicode_db where
  "latin1_db =
     \<lparr>totitle = (\<lambda>c. [c]), tolower = (\<lambda>c. [c]), cased = (\<lambda>c. False),
      case_ignorable = (\<lambda>c. False)\<rparr>"

text \<open>
  The capital sigma U+03A3 at index \<open>i\<close> of \<open>s\<close> becomes the final sigma U+03C2 when
  the nearest character before it that is not case-ignorable exists and is cased, and the
  nearest such character behind it does not exist or is not cased; otherwise it becomes
  U+03C3. Every other character has the lower-case mapping of the database.
\<close>

definition handle_capital_sigma :: "unicode_db \<Rightarrow> pystr \<Rightarrow> nat \<Rightarrow> nat" where
  "handle_capital_sigma db s i =
     (let before = dropWhile (is_case_ignorable db) (rev (take i s));
          behind = dropWhile (is_case_ignorable db) (drop (Suc i) s)
      in if (case before of [] \<Rightarrow> False | c # _ \<Rightarrow> is_cased db c) \<and>
            (case behind of [] \<Rightarrow> True | c # _ \<Rightarrow> \<not> is_cased db c)
         then 0x3C2 else 0x3C3)"

definition lower_ucs4 :: "unicode_db \<Rightarrow> pystr \<Rightarrow> nat \<Rightarrow> pystr" where
  "lower_ucs4 db s i =
     (if s ! i = 0x3A3 then [handle_capital_sigma db s i] else to_lower_full db (s ! i))"

text \<open>
  \<^verbatim>\<open>s.capitalize()\<close>: the empty string is returned as it is; otherwise the first
  character is mapped to title case and every other character, at its index, to lower case.
\<close>

definition capitalize :: "unicode_db \<Rightarrow> pystr \<Rightarrow> pystr" where
  "capitalize db s =
     (if s = [] then []
      else to_title_full db (s ! 0) @ concat (map (lower_ucs4 db s) [1..<length s]))"

text \<open>
  \<^verbatim>\<open>s.replace(old, new)\<close>: every occurrence of \<open>old\<close>, found from the left without
  overlap, becomes \<open>new\<close>; an empty \<open>old\<close> matches before every character and at the end.
\<close>

function replace :: "pystr \<Rightarrow> pystr \<Rightarrow> pystr \<Rightarrow> pystr" where
  "replace s old new =
     (if old = [] then new @ concat (map (\<lambda>c. c # new) s)
      else case s of
        [] \<Rightarrow> []
      | c # cs \<Rightarrow>
          if take (length old) s = old then new @ replace (drop (length old) s) old new
          else c # replace cs old new)"
  by pat_completeness auto
termination
  by (relation "measure (\<lambda>(s, old, new). length s)") auto

declare replace.simps [simp del]

subsection \<open>The random source\<close>

text \<open>
  \<^verbatim>\<open>random.choice(seq)\<close> raises \<^verbatim>\<open>IndexError\<close> on an empty sequence and otherwise
  returns \<^verbatim>\<open>seq[i]\<close> for an index \<open>i\<close> below \<^verbatim>\<open>len(seq)\<close> that it draws from the
  generator. The generator is the sequence of its future raw draws; one call takes the
  first of them, reduced below the bound, and leaves the others.
\<close>

type_synonym rng = "nat \<Rightarrow> nat"

definition randbelow :: "nat \<Rightarrow> rng \<Rightarrow> nat \<times> rng" where
  "randbelow n g = (g 0 mod n, \<lambda>i. g (Suc i))"

definition choice :: "'a list \<Rightarrow> rng \<Rightarrow> (error + 'a) \<times> rng" where
  "choice seq g =
     (if seq = [] then (Inl IndexError, g)
      else case randbelow (length seq) g of (i, g') \<Rightarrow> (Inr (seq ! i), g'))"

subsection \<open>Floats and their formatting\<close>

text \<open>
  A Python float is an IEEE binary64 number; the model keeps its exact value, a rational.
  \<open>round_half_even\<close> is rounding to the nearest integer, a tie going to the even one.
  \<open>float_of_decimal\<close> is the float that a decimal literal \<open>q\<close> with \<open>1 \<le> q < 2 ^ 53\<close>
  denotes: the multiple of \<open>2 ^ - k\<close> nearest to \<open>q\<close>, where \<open>k\<close> leaves 53 bits of mantissa.
\<close>

definition round_half_even :: "rat \<Rightarrow> int" where
  "round_half_even x =
     (let f = \<lfloor>x\<rfloor>; d = x - of_int f
      in if d < 1 / 2 then f else if 1 / 2 < d then f + 1 else if even f then f else f + 1)"

definition float_of_decimal :: "rat \<Rightarrow> rat" where
  "float_of_decimal q =
     (let k = 53 - floorlog 2 (nat \<lfloor>q\<rfloor>)
      in of_int (round_half_even (q * 2 ^ k)) / 2 ^ k)"

text \<open>The decimal digits of a natural number, as \<^verbatim>\<open>str(n)\<close> writes them.\<close>

fun digits :: "nat \<Rightarrow> pystr" where
  "digits n = (if n < 10 then [0x30 + n] else digits (n div 10) @ [0x30 + n mod 10])"

declare digits.simps [simp del]

text \<open>
  The format specification \<^verbatim>\<open>.2f\<close>: the value rounded correctly to two decimal
  places (the nearest, a tie to the even digit), written with a sign if negative, the
  integer part, a point and exactly two digits.
\<close>

definition format_2f :: "rat \<Rightarrow> pystr" where
  "format_2f x =
     (let n = nat (round_half_even (\<bar>x\<bar> * 100))
      in (if x < 0 then lit ''-'' else []) @ digits (n div 100) @ lit ''.'' @
         [0x30 + n mod 100 div 10, 0x30 + n mod 10])"

subsection \<open>The mock helpers of \<^verbatim>\<open>backend/main.py\<close>\<close>

definition parts :: "pystr list" where
  "parts = [lit ''Co'', lit ''Lab'', lit ''Works'', lit ''Craft'', lit ''Studio'', lit ''Goods'',
     lit ''Peak'', lit ''Root'']"

text \<open>
  \<^verbatim>\<open>(base.split()[0].capitalize() + random.choice(parts))[:30]\<close>. The index is
  evaluated before the draw, so a phrase without a token raises before the generator is
  used.
\<close>

definition mock_brand_name :: "unicode_db \<Rightarrow> pystr \<Rightarrow> rng \<Rightarrow> (error + pystr) \<times> rng" where
  "mock_brand_name db base g =
     (case getitem (split_str base) 0 of
        Inl e \<Rightarrow> (Inl e, g)
      | Inr tok \<Rightarrow>
          (case choice parts g of
             (Inl e, g') \<Rightarrow> (Inl e, g')
           | (Inr suffix, g') \<Rightarrow> (Inr (take 30 (capitalize db tok @ suffix)), g')))"

definition mock_logo_url :: "pystr \<Rightarrow> pystr" where
  "mock_logo_url base =
     (let text = replace base (lit '' '') (lit ''+'')
      in lit ''https://via.placeholder.com/256x256.png?text='' @ text)"

definition mock_title :: "unicode_db \<Rightarrow> pystr \<Rightarrow> pystr" where
  "mock_title db base = capitalize db base @ lit '' '' @ em_dash @ lit '' Premium Edition''"

definition mock_description :: "pystr \<Rightarrow> pystr" where
  "mock_description base =
     lit ''The '' @ base @
     lit '' designed for people who want quality and sustainability. Handcrafted and tested.''"

definition price_points :: "rat list" where
  "price_points = map float_of_decimal [1999 / 100, 2499 / 100, 2999 / 100, 4999 / 100]"

definition mock_price :: "rng \<Rightarrow> (error + pystr) \<times> rng" where
  "mock_price g =
     (case choice price_points g of
        (Inl e, g') \<Rightarrow> (Inl e, g')
      | (Inr p, g') \<Rightarrow> (Inr (lit ''$'' @ format_2f p), g'))"

definition mock_ads :: "pystr \<Rightarrow> pystr list" where
  "mock_ads base =
     [lit ''Try our '' @ base @ lit '' '' @ em_dash @ lit '' limited launch offer!'',
      lit ''Why our '' @ base @ lit '' is better: sustainable, durable, stylish.'',
      lit ''See how our '' @ base @ lit '' fits your life in 15 seconds.'']"

subsection \<open>The endpoint \<^verbatim>\<open>generate\<close>\<close>

record GenerateRequest =
  idea :: "pystr option"

record Brand =
  name :: pystr
  logo :: pystr

record Product =
  title :: pystr
  description :: pystr
  price :: pystr

record GenerateResponse =
  brand :: Brand
  product :: Product
  ads :: "pystr list"

text \<open>
  \<^verbatim>\<open>x or d\<close> for an optional string \<open>x\<close>: \<^verbatim>\<open>None\<close> and the empty string are
  false, so both give \<open>d\<close>.
\<close>

definition or_else :: "pystr option \<Rightarrow> pystr \<Rightarrow> pystr" where
  "or_else x d = (case x of None \<Rightarrow> d | Some s \<Rightarrow> if s = [] then d else s)"

text \<open>
  The helpers run in the order of the source: the brand name, the logo, the title, the
  description, the price, the ads. An exception of a helper leaves the endpoint, and the
  request has no response body of the declared model.
\<close>

definition generate :: "unicode_db \<Rightarrow> GenerateRequest \<Rightarrow> rng \<Rightarrow> (error + GenerateResponse) \<times> rng" where
  "generate db req g =
     (let base = or_else (idea req) (lit ''cool product'')
      in case mock_brand_name db base g of
           (Inl e, g1) \<Rightarrow> (Inl e, g1)
         | (Inr nm, g1) \<Rightarrow>
             (case mock_price g1 of
                (Inl e, g2) \<Rightarrow> (Inl e, g2)
              | (Inr pr, g2) \<Rightarrow>
                  (Inr \<lparr>brand = \<lparr>name = nm, logo = mock_logo_url base\<rparr>,
                        product = \<lparr>title = mock_title db base,
                                   description = mock_description base, price = pr\<rparr>,
                        ads = mock_ads base\<rparr>, g2)))"

subsection \<open>The proxy route \<^verbatim>\<open>handler\<close>\<close>

text \<open>
  The route sees a request with a method (\<^verbatim>\<open>req.method\<close>) and a parsed JSON body
  (\<^verbatim>\<open>req.body\<close>), and answers with a status
  and possibly a JSON payload. The call of \<^verbatim>\<open>fetch\<close> and the following
  \<^verbatim>\<open>r.json()\<close> have three outcomes: the promise of \<^verbatim>\<open>fetch\<close> is rejected (no
  reply arrived), a reply with some status arrived and its body is not JSON, or a reply
  arrived and its body parsed. \<^verbatim>\<open>fetch\<close> does not reject on a status.
\<close>

datatype json =
  JNull | JBool bool | JNum rat | JStr string | JArr "json list" | JObj "(string \<times> json) list"

record Request =
  req_method :: string
  req_body :: json

record FetchInit =
  fetch_method :: string
  fetch_headers :: "(string \<times> string) list"
  fetch_body :: json

datatype fetch_outcome = Rejected | Replied nat "json option"

record Response =
  status :: nat
  payload :: "json option"

record Env =
  BACKEND_URL :: "string option"

text \<open>\<^verbatim>\<open>x || d\<close> for a string that may be undefined: undefined and \<^verbatim>\<open>''\<close> give \<open>d\<close>.\<close>

definition js_or :: "string option \<Rightarrow> string \<Rightarrow> string" where
  "js_or x d = (case x of None \<Rightarrow> d | Some s \<Rightarrow> if s = [] then d else s)"

definition proxy_failed :: json where
  "proxy_failed = JObj [(''error'', JStr ''backend proxy failed'')]"

definition handler :: "Env \<Rightarrow> (string \<Rightarrow> FetchInit \<Rightarrow> fetch_outcome) \<Rightarrow> Request \<Rightarrow> Response" where
  "handler env fetch req =
     (if req_method req \<noteq> ''POST'' then \<lparr>status = 405, payload = None\<rparr>
      else
        let backendUrl = js_or (BACKEND_URL env) ''http://localhost:8000/generate''
        in case fetch backendUrl
                  \<lparr>fetch_method = ''POST'',
                   fetch_headers = [(''Content-Type'', ''application/json'')],
                   fetch_body = req_body req\<rparr> of
             Rejected \<Rightarrow> \<lparr>status = 500, payload = Some proxy_failed\<rparr>
           | Replied st None \<Rightarrow> \<lparr>status = 500, payload = Some proxy_failed\<rparr>
           | Replied st (Some data) \<Rightarrow> \<lparr>status = 200, payload = Some data\<rparr>)"

text \<open>
  The backend call failed when no reply arrived or when the body of the reply is not JSON:
  the two ways into the \<^verbatim>\<open>catch\<close> block.
\<close>

definition backend_call_failed :: "fetch_outcome \<Rightarrow> bool" where
  "backend_call_failed out =
     (case out of Rejected \<Rightarrow> True | Replied st None \<Rightarrow> True | Replied st (Some data) \<Rightarrow> False)"

subsection \<open>The logo reference as the specification words it\<close>

text \<open>
  The specification's wording of the logo reference, for comparison with
  \<open>mock_logo_url\<close>: the phrase with every whitespace character replaced by \<open>+\<close>, and
  a text containing another (Python's \<^verbatim>\<open>x in s\<close>).
\<close>

definition whitespace_to_plus :: "pystr \<Rightarrow> pystr" where
  "whitespace_to_plus s = map (\<lambda>c. if isspace c then 0x2B else c) s"

fun contains :: "pystr \<Rightarrow> pystr \<Rightarrow> bool" where
  "contains [] x \<longleftrightarrow> x = []"
| "contains (c # cs) x \<longleftrightarrow> take (length x) (c # cs) = x \<or> contains cs x"

section \<open>Properties\<close>

subsection \<open>Strings, the random source and floats\<close>

text \<open>
  \<^verbatim>\<open>split()\<close> returns no token exactly for a string of whitespace only (the empty
  string among them); otherwise its first token is the longest run without whitespace
  behind the leading whitespace.
\<close>

lemma split_str_Nil_iff: "split_str s = [] \<longleftrightarrow> (\<forall>c\<in>set s. isspace c)"
proof (cases "dropWhile isspace s")
  case Nil
  have "split_str s = []"
    by (subst split_str.simps, unfold Nil) simp
  moreover from Nil have "\<forall>c\<in>set s. isspace c"
    by (simp add: dropWhile_eq_Nil_conv)
  ultimately show ?thesis by simp
next
  case (Cons c cs)
  have "split_str s \<noteq> []"
    by (subst split_str.simps, unfold Cons) simp
  moreover from Cons have "\<not> (\<forall>c\<in>set s. isspace c)"
    using dropWhile_eq_Nil_conv [of isspace s] by simp
  ultimately show ?thesis by simp
qed

lemma split_str_first:
  assumes "\<not> (\<forall>c\<in>set s. isspace c)"
  shows "\<exists>rest. split_str s = takeWhile (\<lambda>x. \<not> isspace x) (dropWhile isspace s) # rest"
proof (cases "dropWhile isspace s")
  case Nil
  with assms show ?thesis by (simp add: dropWhile_eq_Nil_conv)
next
  case (Cons c cs)
  then have "\<not> isspace c"
    using hd_dropWhile [of isspace s] by simp
  then show ?thesis
    by (subst split_str.simps, unfold Cons) simp
qed

lemma getitem_split_str:
  "getitem (split_str s) 0 =
     (if \<forall>c\<in>set s. isspace c then Inl IndexError
      else Inr (takeWhile (\<lambda>x. \<not> isspace x) (dropWhile isspace s)))"
proof (cases "\<forall>c\<in>set s. isspace c")
  case True
  then have "split_str s = []" by (simp add: split_str_Nil_iff)
  with True show ?thesis by (simp add: getitem_def)
next
  case False
  from split_str_first [OF False] obtain rest where
    "split_str s = takeWhile (\<lambda>x. \<not> isspace x) (dropWhile isspace s) # rest" ..
  with False show ?thesis by (simp add: getitem_def)
qed

text \<open>
  Capitalisation without the capital sigma maps the first character to title case and the
  others to lower case one by one; on ASCII text it is the familiar mapping of the letters.
  The examples are the word \<open>eclair\<close> with U+00E9 for its first letter, the word
  \<open>seta\<close> with U+00DF for its first letter (its title case has two characters), and the
  sigma in and out of final position.
\<close>

lemma map_nth_from_one: "map ((!) s) [1..<length s] = tl s"
  by (rule nth_equalityI) (auto simp: nth_tl)

lemma capitalize_no_sigma:
  assumes "0x3A3 \<notin> set s"
  shows "capitalize db s =
     (case s of [] \<Rightarrow> [] | c # cs \<Rightarrow> to_title_full db c @ concat (map (to_lower_full db) cs))"
proof (cases s)
  case Nil
  then show ?thesis by (simp add: capitalize_def)
next
  case (Cons c cs)
  have "map (lower_ucs4 db s) [1..<length s] = map (\<lambda>i. to_lower_full db (s ! i)) [1..<length s]"
  proof (rule map_cong [OF refl])
    fix i assume "i \<in> set [1..<length s]"
    then have "s ! i \<in> set s"
      by simp
    with assms have "s ! i \<noteq> 0x3A3"
      by metis
    then show "lower_ucs4 db s i = to_lower_full db (s ! i)"
      by (simp add: lower_ucs4_def)
  qed
  also have "\<dots> = map (to_lower_full db) (map ((!) s) [1..<length s])"
    by simp
  also have "\<dots> = map (to_lower_full db) cs"
    unfolding map_nth_from_one using Cons by simp
  finally show ?thesis
    using Cons by (simp add: capitalize_def)
qed

lemma capitalize_ascii:
  assumes "\<forall>c\<in>set s. c < 0x80"
  shows "capitalize db s =
     (case s of [] \<Rightarrow> []
      | c # cs \<Rightarrow> (if 0x61 \<le> c \<and> c \<le> 0x7A then c - 0x20 else c) #
                  map (\<lambda>x. if 0x41 \<le> x \<and> x \<le> 0x5A then x + 0x20 else x) cs)"
proof -
  from assms have "0x3A3 \<notin> set s"
    by auto
  moreover have "to_title_full db c = [if 0x61 \<le> c \<and> c \<le> 0x7A then c - 0x20 else c]"
    if "c < 0x80" for c
    using that by (simp add: to_title_full_def latin1_totitle_def)
  moreover have "concat (map (to_lower_full db) cs) =
      map (\<lambda>x. if 0x41 \<le> x \<and> x \<le> 0x5A then x + 0x20 else x) cs"
    if "\<forall>c\<in>set cs. c < 0x80" for cs
    using that by (induction cs) (simp_all add: to_lower_full_def latin1_tolower_def)
  ultimately show ?thesis
    using assms by (cases s) (simp_all add: capitalize_no_sigma)
qed

lemma capitalize_eclair:
  "capitalize db [0xE9, 0x63, 0x6C, 0x61, 0x69, 0x72] = [0xC9, 0x63, 0x6C, 0x61, 0x69, 0x72]"
  by (simp add: capitalize_no_sigma to_title_full_def to_lower_full_def latin1_totitle_def
      latin1_tolower_def)

lemma capitalize_sharp_s:
  "capitalize db [0xDF, 0x65, 0x74, 0x61] = [0x53, 0x73, 0x65, 0x74, 0x61]"
  by (simp add: capitalize_no_sigma to_title_full_def to_lower_full_def latin1_totitle_def
      latin1_tolower_def)

lemma capitalize_final_sigma:
  "capitalize db [0x61, 0x27, 0x3A3] = [0x41, 0x27, 0x3C2] \<and>
   capitalize db [0x61, 0x3A3, 0x62] = [0x41, 0x3C3, 0x62]"
  by (simp add: capitalize_def upt_rec lower_ucs4_def handle_capital_sigma_def
      to_title_full_def to_lower_full_def is_cased_def is_case_ignorable_def latin1_totitle_def
      latin1_tolower_def latin1_cased_def latin1_case_ignorable_def)

lemma length_parts: "length parts = 8"
  by (simp add: parts_def)

lemma choice_parts: "choice parts g = (Inr (parts ! (g 0 mod 8)), \<lambda>i. g (Suc i))"
  by (simp add: choice_def randbelow_def length_parts) (simp add: parts_def)

lemma replace_char: "replace s [c] [d] = map (\<lambda>x. if x = c then d else x) s"
proof (induction s)
  case Nil
  show ?case by (subst replace.simps) simp
next
  case (Cons x xs)
  show ?case by (subst replace.simps) (simp add: Cons.IH)
qed

lemma price_points_values:
  "price_points =
     [5626684784446013 / 2 ^ 48, 7034059667999293 / 2 ^ 48, 8441434551552573 / 2 ^ 48,
      7035467042882847 / 2 ^ 47]"
  unfolding price_points_def by code_simp

lemma format_prices:
  "map format_2f price_points = [lit ''19.99'', lit ''24.99'', lit ''29.99'', lit ''49.99'']"
  unfolding price_points_def by code_simp

lemma parts_nth_mem: "parts ! (n mod 8) \<in> set parts"
  using nth_mem [of "n mod 8" parts] by (simp add: length_parts)

lemma set_parts:
  "set parts = {lit ''Co'', lit ''Lab'', lit ''Works'', lit ''Craft'', lit ''Studio'', lit ''Goods'',
     lit ''Peak'', lit ''Root''}"
  by (simp add: parts_def)

lemma distinct_parts: "distinct parts"
  by (simp add: parts_def lit_def)

lemma card_parts:
  "card {lit ''Co'', lit ''Lab'', lit ''Works'', lit ''Craft'', lit ''Studio'', lit ''Goods'',
     lit ''Peak'', lit ''Root''} = 8"
  using distinct_card [OF distinct_parts] unfolding set_parts length_parts .

lemma mock_brand_name_eq:
  "mock_brand_name db base g =
     (if \<forall>c\<in>set base. isspace c then (Inl IndexError, g)
      else (Inr (take 30 (capitalize db (takeWhile (\<lambda>x. \<not> isspace x) (dropWhile isspace base))
              @ parts ! (g 0 mod 8))), \<lambda>i. g (Suc i)))"
  by (simp add: mock_brand_name_def getitem_split_str choice_parts)

lemma mock_price_eq:
  "mock_price g =
     (Inr ([lit ''$19.99'', lit ''$24.99'', lit ''$29.99'', lit ''$49.99''] ! (g 0 mod 4)),
      \<lambda>i. g (Suc i))"
proof -
  have len: "length price_points = 4"
    by (simp add: price_points_def)
  have lt: "g 0 mod 4 < 4"
    by simp
  have "lit ''$'' @ format_2f (price_points ! (g 0 mod 4)) =
      map (\<lambda>p. lit ''$'' @ p) (map format_2f price_points) ! (g 0 mod 4)"
    using lt by (simp add: len)
  also have "\<dots> = [lit ''$19.99'', lit ''$24.99'', lit ''$29.99'', lit ''$49.99''] ! (g 0 mod 4)"
    by (simp add: format_prices lit_def)
  finally have fmt: "lit ''$'' @ format_2f (price_points ! (g 0 mod 4)) =
      [lit ''$19.99'', lit ''$24.99'', lit ''$29.99'', lit ''$49.99''] ! (g 0 mod 4)" .
  have ne: "price_points \<noteq> []"
    using len by auto
  show ?thesis
    by (simp add: mock_price_def choice_def randbelow_def ne len fmt)
qed

text \<open>
  The endpoint in closed form: the phrase is the idea or the default; a phrase of
  whitespace only raises in \<^verbatim>\<open>mock_brand_name\<close>, any other phrase gives a response
  and takes two draws, the first for the suffix and the second for the price.
\<close>

lemma generate_eq:
  "generate db req g =
     (let base = or_else (idea req) (lit ''cool product'')
      in if \<forall>c\<in>set base. isspace c then (Inl IndexError, g)
         else (Inr \<lparr>brand = \<lparr>name = take 30 (capitalize db (takeWhile (\<lambda>x. \<not> isspace x)
                                  (dropWhile isspace base)) @ parts ! (g 0 mod 8)),
                              logo = mock_logo_url base\<rparr>,
                     product = \<lparr>title = mock_title db base, description = mock_description base,
                                price = [lit ''$19.99'', lit ''$24.99'', lit ''$29.99'',
                                         lit ''$49.99''] ! (g 1 mod 4)\<rparr>,
                     ads = mock_ads base\<rparr>, \<lambda>i. g (Suc (Suc i))))"
  by (simp add: generate_def Let_def mock_brand_name_eq mock_price_eq)


subsection \<open>The brand name\<close>

text \<open>
  C1. The claim: every mock helper returns a result for every phrase, the empty one
  included, and no error is raised. \<^verbatim>\<open>mock_brand_name\<close> indexes the token list of
  the phrase at 0, and the list is empty for a phrase of whitespace only: for the phrase of
  one space, which the endpoint passes on as it is, and for the empty phrase the helper
  raises \<^verbatim>\<open>IndexError\<close>, whatever the random source.
\<close>

theorem mock_brand_name_blank_raises:
  "fst (mock_brand_name db (lit '' '') g) = Inl IndexError \<and>
   fst (mock_brand_name db [] g) = Inl IndexError"
  by (simp add: mock_brand_name_eq lit_def isspace_def)

text \<open>
  C2. For a phrase with at least one token, the brand name is the capitalized first token
  followed by the drawn suffix, one of a set of eight, cut to 30 characters, so that the
  name has at most 30 characters. The first token is the longest run without whitespace
  behind the leading whitespace. Its capitalization is the title case of its first
  character followed by the lower case of the others; for a token in ASCII that is the
  first letter in upper case and the other letters in lower case.
\<close>

theorem mock_brand_name_first_token:
  assumes "split_str base \<noteq> []"
  shows "fst (mock_brand_name db base g) =
           Inr (take 30 (capitalize db (hd (split_str base)) @ parts ! (g 0 mod 8))) \<and>
         parts ! (g 0 mod 8) \<in>
           {lit ''Co'', lit ''Lab'', lit ''Works'', lit ''Craft'', lit ''Studio'', lit ''Goods'',
            lit ''Peak'', lit ''Root''} \<and>
         card {lit ''Co'', lit ''Lab'', lit ''Works'', lit ''Craft'', lit ''Studio'',
               lit ''Goods'', lit ''Peak'', lit ''Root''} = 8 \<and>
         hd (split_str base) = takeWhile (\<lambda>x. \<not> isspace x) (dropWhile isspace base) \<and>
         hd (split_str base) \<noteq> [] \<and>
         capitalize db (hd (split_str base)) =
           to_title_full db (hd (hd (split_str base))) @
           concat (map (lower_ucs4 db (hd (split_str base))) [1..<length (hd (split_str base))]) \<and>
         ((\<forall>c\<in>set (hd (split_str base)). c < 0x80) \<longrightarrow>
            capitalize db (hd (split_str base)) =
              (let c = hd (hd (split_str base))
               in if 0x61 \<le> c \<and> c \<le> 0x7A then c - 0x20 else c) #
              map (\<lambda>x. if 0x41 \<le> x \<and> x \<le> 0x5A then x + 0x20 else x)
                (tl (hd (split_str base)))) \<and>
         (\<forall>nm. fst (mock_brand_name db base g) = Inr nm \<longrightarrow> length nm \<le> 30)"
proof -
  let ?tok = "hd (split_str base)"
  from assms have ns: "\<not> (\<forall>c\<in>set base. isspace c)"
    by (simp add: split_str_Nil_iff)
  from split_str_first [OF ns] have tok:
    "?tok = takeWhile (\<lambda>x. \<not> isspace x) (dropWhile isspace base)"
    by auto
  from ns have "dropWhile isspace base \<noteq> []"
    by (simp add: dropWhile_eq_Nil_conv)
  then have "\<not> isspace (hd (dropWhile isspace base))"
    by (rule hd_dropWhile)
  with \<open>dropWhile isspace base \<noteq> []\<close> have ne: "?tok \<noteq> []"
    unfolding tok by (cases "dropWhile isspace base") simp_all
  have name: "fst (mock_brand_name db base g) =
      Inr (take 30 (capitalize db ?tok @ parts ! (g 0 mod 8)))"
    using ns by (simp add: mock_brand_name_eq tok)
  have suffix: "parts ! (g 0 mod 8) \<in> {lit ''Co'', lit ''Lab'', lit ''Works'', lit ''Craft'',
      lit ''Studio'', lit ''Goods'', lit ''Peak'', lit ''Root''}"
    using parts_nth_mem [of "g 0"] unfolding set_parts .
  have cap: "capitalize db ?tok =
      to_title_full db (hd ?tok) @ concat (map (lower_ucs4 db ?tok) [1..<length ?tok])"
    using ne by (simp add: capitalize_def hd_conv_nth)
  have ascii: "(\<forall>c\<in>set ?tok. c < 0x80) \<longrightarrow>
      capitalize db ?tok =
        (let c = hd ?tok in if 0x61 \<le> c \<and> c \<le> 0x7A then c - 0x20 else c) #
        map (\<lambda>x. if 0x41 \<le> x \<and> x \<le> 0x5A then x + 0x20 else x) (tl ?tok)"
  proof
    assume "\<forall>c\<in>set ?tok. c < 0x80"
    from capitalize_ascii [OF this, of db] ne show "capitalize db ?tok =
        (let c = hd ?tok in if 0x61 \<le> c \<and> c \<le> 0x7A then c - 0x20 else c) #
        map (\<lambda>x. if 0x41 \<le> x \<and> x \<le> 0x5A then x + 0x20 else x) (tl ?tok)"
      by (cases ?tok) simp_all
  qed
  have len: "\<forall>nm. fst (mock_brand_name db base g) = Inr nm \<longrightarrow> length nm \<le> 30"
    unfolding name by simp
  from name suffix card_parts tok ne cap ascii len show ?thesis
    by (intro conjI)
qed


theorem mock_brand_name_first_token_witness:
  "split_str (lit ''eco case'') \<noteq> [] \<and>
   hd (split_str (lit ''eco case'')) = lit ''eco'' \<and>
   capitalize latin1_db (lit ''eco'') = lit ''Eco'' \<and>
   fst (mock_brand_name latin1_db (lit ''eco case'') (\<lambda>i. 4)) = Inr (lit ''EcoStudio'') \<and>
   length (lit ''EcoStudio'') \<le> 30"
proof -
  have h: "split_str (lit ''eco case'') \<noteq> []"
    by (simp add: split_str_Nil_iff lit_def isspace_def)
  note inst = mock_brand_name_first_token [OF h, of latin1_db "\<lambda>i. 4"]
  have first: "takeWhile (\<lambda>x. \<not> isspace x) (dropWhile isspace (lit ''eco case'')) = lit ''eco''"
    by (simp add: lit_def isspace_def)
  from inst have "hd (split_str (lit ''eco case'')) =
      takeWhile (\<lambda>x. \<not> isspace x) (dropWhile isspace (lit ''eco case''))"
    by (elim conjE)
  then have tok: "hd (split_str (lit ''eco case'')) = lit ''eco''"
    by (simp only: first)
  from inst have "(\<forall>c\<in>set (hd (split_str (lit ''eco case''))). c < 0x80) \<longrightarrow>
      capitalize latin1_db (hd (split_str (lit ''eco case''))) =
        (let c = hd (hd (split_str (lit ''eco case'')))
         in if 0x61 \<le> c \<and> c \<le> 0x7A then c - 0x20 else c) #
        map (\<lambda>x. if 0x41 \<le> x \<and> x \<le> 0x5A then x + 0x20 else x)
          (tl (hd (split_str (lit ''eco case''))))"
    by (elim conjE)
  then have "(\<forall>c\<in>set (lit ''eco''). c < 0x80) \<longrightarrow>
      capitalize latin1_db (lit ''eco'') =
        (let c = hd (lit ''eco'') in if 0x61 \<le> c \<and> c \<le> 0x7A then c - 0x20 else c) #
        map (\<lambda>x. if 0x41 \<le> x \<and> x \<le> 0x5A then x + 0x20 else x) (tl (lit ''eco''))"
    by (simp only: tok)
  moreover have "\<forall>c\<in>set (lit ''eco''). c < 0x80"
    by (simp add: lit_def)
  ultimately have "capitalize latin1_db (lit ''eco'') =
        (let c = hd (lit ''eco'') in if 0x61 \<le> c \<and> c \<le> 0x7A then c - 0x20 else c) #
        map (\<lambda>x. if 0x41 \<le> x \<and> x \<le> 0x5A then x + 0x20 else x) (tl (lit ''eco''))"
    by (rule mp)
  also have "\<dots> = lit ''Eco''"
    by (simp add: lit_def)
  finally have cap: "capitalize latin1_db (lit ''eco'') = lit ''Eco''" .
  from inst have "fst (mock_brand_name latin1_db (lit ''eco case'') (\<lambda>i. 4)) =
      Inr (take 30 (capitalize latin1_db (hd (split_str (lit ''eco case''))) @ parts ! (4 mod 8)))"
    by (elim conjE)
  then have "fst (mock_brand_name latin1_db (lit ''eco case'') (\<lambda>i. 4)) =
      Inr (take 30 (lit ''Eco'' @ parts ! (4 mod 8)))"
    by (simp only: tok cap)
  also have "take 30 (lit ''Eco'' @ parts ! (4 mod 8)) = lit ''EcoStudio''"
    by (simp add: parts_def lit_def)
  finally have name: "fst (mock_brand_name latin1_db (lit ''eco case'') (\<lambda>i. 4)) =
      Inr (lit ''EcoStudio'')" .
  have "length (lit ''EcoStudio'') \<le> 30"
    by (simp add: lit_def)
  with h tok cap name show ?thesis
    by (intro conjI)
qed

text \<open>
  The same on two phrases outside ASCII, for every database: \<open>eclair\<close> with U+00E9 for
  its first letter gives the same word with U+00C9 and the suffix \<open>Co\<close>; \<open>seta x\<close>
  with U+00DF for its first letter gives \<open>SsetaCo\<close>, one character longer than token and
  suffix.
\<close>

lemma mock_brand_name_latin1_examples:
  "fst (mock_brand_name db [0xE9, 0x63, 0x6C, 0x61, 0x69, 0x72] (\<lambda>i. 0)) =
     Inr ([0xC9, 0x63, 0x6C, 0x61, 0x69, 0x72] @ lit ''Co'') \<and>
   fst (mock_brand_name db [0xDF, 0x65, 0x74, 0x61, 0x20, 0x78] (\<lambda>i. 0)) =
     Inr (lit ''SsetaCo'')"
  by (simp add: mock_brand_name_eq isspace_def capitalize_eclair capitalize_sharp_s parts_def
      lit_def)

subsection \<open>The response\<close>

text \<open>
  C5. The claim: every accepted phrase, also an empty or absent one, gives a response with
  one brand, one product and three ads. An idea of one space is a string like any other,
  is not replaced by the default, and the endpoint raises \<^verbatim>\<open>IndexError\<close> in
  \<^verbatim>\<open>mock_brand_name\<close> before any ad is built: there is no response.
\<close>

theorem generate_blank_idea_raises:
  "fst (generate db \<lparr>idea = Some (lit '' '')\<rparr> g) = Inl IndexError"
  by (simp add: generate_eq or_else_def lit_def isspace_def)

subsection \<open>The logo reference\<close>

lemma contains_set: "contains s x \<Longrightarrow> set x \<subseteq> set s"
proof (induction s)
  case Nil
  then show ?case by simp
next
  case (Cons c cs)
  from Cons.prems have "take (length x) (c # cs) = x \<or> contains cs x"
    by simp
  then show ?case
  proof
    assume "take (length x) (c # cs) = x"
    then have "set x = set (take (length x) (c # cs))" by simp
    then show ?thesis using set_take_subset [of "length x" "c # cs"] by simp
  next
    assume "contains cs x"
    then have "set x \<subseteq> set cs" by (rule Cons.IH)
    then show ?thesis by auto
  qed
qed

text \<open>
  C3. The claim: the logo URL contains the phrase with all its whitespace replaced by
  \<open>+\<close>. \<^verbatim>\<open>base.replace(' ', '+')\<close> replaces the space U+0020 only: for the phrase
  \<open>a\<close>, tab, \<open>b\<close> the URL ends in the phrase as it is, tab included, and
  \<open>a+b\<close> occurs nowhere in it.
\<close>

theorem mock_logo_url_tab_counterexample:
  "mock_logo_url [0x61, 0x9, 0x62] =
     lit ''https://via.placeholder.com/256x256.png?text=a'' @ [0x9] @ lit ''b'' \<and>
   \<not> contains (mock_logo_url [0x61, 0x9, 0x62]) (whitespace_to_plus [0x61, 0x9, 0x62])"
proof
  show "mock_logo_url [0x61, 0x9, 0x62] =
      lit ''https://via.placeholder.com/256x256.png?text=a'' @ [0x9] @ lit ''b''"
    by (simp add: mock_logo_url_def lit_def replace_char)
next
  show "\<not> contains (mock_logo_url [0x61, 0x9, 0x62]) (whitespace_to_plus [0x61, 0x9, 0x62])"
  proof
    assume "contains (mock_logo_url [0x61, 0x9, 0x62]) (whitespace_to_plus [0x61, 0x9, 0x62])"
    then have "set (whitespace_to_plus [0x61, 0x9, 0x62]) \<subseteq> set (mock_logo_url [0x61, 0x9, 0x62])"
      by (rule contains_set)
    then show False
      by (simp add: whitespace_to_plus_def isspace_def mock_logo_url_def replace_char lit_def)
  qed
qed

text \<open>
  C3, amended. The logo URL is the fixed prefix followed by the phrase with every space
  U+0020 replaced by \<open>+\<close>; every other character, other whitespace included, is kept.
\<close>

theorem mock_logo_url_spaces:
  "mock_logo_url base =
     lit ''https://via.placeholder.com/256x256.png?text='' @
     map (\<lambda>c. if c = 0x20 then 0x2B else c) base"
  by (simp add: mock_logo_url_def lit_def replace_char)

subsection \<open>The price\<close>

text \<open>
  C6. Whatever the random source, \<^verbatim>\<open>mock_price\<close> returns one of the four strings
  \<open>$19.99\<close>, \<open>$24.99\<close>, \<open>$29.99\<close> and \<open>$49.99\<close>: the currency sign, the integer
  part, a point and two decimals. Each of the four is returned for some draw.
\<close>

theorem mock_price_values:
  "fst (mock_price g) \<in>
     {Inr (lit ''$19.99''), Inr (lit ''$24.99''), Inr (lit ''$29.99''), Inr (lit ''$49.99'')} \<and>
   fst (mock_price (\<lambda>i. 0)) = Inr (lit ''$19.99'') \<and>
   fst (mock_price (\<lambda>i. 1)) = Inr (lit ''$24.99'') \<and>
   fst (mock_price (\<lambda>i. 2)) = Inr (lit ''$29.99'') \<and>
   fst (mock_price (\<lambda>i. 3)) = Inr (lit ''$49.99'')"
proof -
  have "g 0 mod 4 = 0 \<or> g 0 mod 4 = 1 \<or> g 0 mod 4 = 2 \<or> g 0 mod 4 = 3"
    by presburger
  then have "fst (mock_price g) \<in>
     {Inr (lit ''$19.99''), Inr (lit ''$24.99''), Inr (lit ''$29.99''), Inr (lit ''$49.99'')}"
    by (auto simp add: mock_price_eq)
  then show ?thesis
    by (simp add: mock_price_eq)
qed

subsection \<open>The default phrase\<close>

lemma cool_product_has_token: "\<not> (\<forall>c\<in>set (lit ''cool product''). isspace c)"
  by (simp add: lit_def isspace_def)

lemma cool_product_first_token:
  "takeWhile (\<lambda>x. \<not> isspace x) (dropWhile isspace (lit ''cool product'')) = lit ''cool''"
  by (simp add: lit_def isspace_def)

lemma capitalize_cool: "capitalize db (lit ''cool'') = lit ''Cool''"
  by (simp add: capitalize_ascii lit_def)

text \<open>The response to a request without an idea, in closed form.\<close>

lemma generate_default:
  "generate db \<lparr>idea = None\<rparr> g =
     (Inr \<lparr>brand = \<lparr>name = take 30 (lit ''Cool'' @ parts ! (g 0 mod 8)),
                      logo = mock_logo_url (lit ''cool product'')\<rparr>,
             product = \<lparr>title = mock_title db (lit ''cool product''),
                        description = mock_description (lit ''cool product''),
                        price = [lit ''$19.99'', lit ''$24.99'', lit ''$29.99'',
                                 lit ''$49.99''] ! (g 1 mod 4)\<rparr>,
             ads = mock_ads (lit ''cool product'')\<rparr>, \<lambda>i. g (Suc (Suc i)))"
proof -
  have base: "or_else None (lit ''cool product'') = lit ''cool product''"
    by (simp add: or_else_def)
  show ?thesis
    unfolding generate_eq Let_def GenerateRequest.simps base
    using cool_product_has_token
    by (simp only: if_False cool_product_first_token capitalize_cool)
qed

text \<open>
  C4. A request without an idea is answered as the request with the idea
  \<open>cool product\<close> is: the endpoint returns a response, whose brand name is \<open>Cool\<close>
  with the drawn suffix, whose logo, title, description and ads are those of the phrase
  \<open>cool product\<close>, whose price is the one that \<^verbatim>\<open>mock_price\<close> draws next, and whose
  ads are three.
\<close>

theorem generate_absent_idea:
  "generate db \<lparr>idea = None\<rparr> g = generate db \<lparr>idea = Some (lit ''cool product'')\<rparr> g \<and>
   (\<exists>r. fst (generate db \<lparr>idea = None\<rparr> g) = Inr r \<and>
        name (brand r) = take 30 (lit ''Cool'' @ parts ! (g 0 mod 8)) \<and>
        logo (brand r) = mock_logo_url (lit ''cool product'') \<and>
        title (product r) = mock_title db (lit ''cool product'') \<and>
        description (product r) = mock_description (lit ''cool product'') \<and>
        fst (mock_price (\<lambda>i. g (Suc i))) = Inr (price (product r)) \<and>
        ads r = mock_ads (lit ''cool product'') \<and>
        length (ads r) = 3)"
proof
  have "lit ''cool product'' \<noteq> []"
    by (simp add: lit_def)
  then show "generate db \<lparr>idea = None\<rparr> g = generate db \<lparr>idea = Some (lit ''cool product'')\<rparr> g"
    by (simp add: generate_def or_else_def)
next
  have "length (mock_ads (lit ''cool product'')) = 3"
    by (simp add: mock_ads_def)
  then show "\<exists>r. fst (generate db \<lparr>idea = None\<rparr> g) = Inr r \<and>
        name (brand r) = take 30 (lit ''Cool'' @ parts ! (g 0 mod 8)) \<and>
        logo (brand r) = mock_logo_url (lit ''cool product'') \<and>
        title (product r) = mock_title db (lit ''cool product'') \<and>
        description (product r) = mock_description (lit ''cool product'') \<and>
        fst (mock_price (\<lambda>i. g (Suc i))) = Inr (price (product r)) \<and>
        ads r = mock_ads (lit ''cool product'') \<and>
        length (ads r) = 3"
    by (simp add: generate_default mock_price_eq)
qed


subsection \<open>Repeated calls\<close>

text \<open>
  C8. Generation is not idempotent: there are a request and two states of the random source
  for which the two responses differ, in the brand name and in the price. And whatever the
  request and the two states, two responses to the same request have the same logo, title,
  description and ads: only the brand name and the price vary.
\<close>

theorem generate_varies:
  "(\<exists>req g h r r'.
      fst (generate db req g) = Inr r \<and> fst (generate db req h) = Inr r' \<and>
      name (brand r) \<noteq> name (brand r') \<and> price (product r) \<noteq> price (product r')) \<and>
   (\<forall>req g h r r'.
      fst (generate db req g) = Inr r \<and> fst (generate db req h) = Inr r' \<longrightarrow>
      logo (brand r) = logo (brand r') \<and> title (product r) = title (product r') \<and>
      description (product r) = description (product r') \<and> ads r = ads r')"
proof
  let ?req = "\<lparr>idea = None\<rparr>"
  let ?g = "\<lambda>i::nat. 0::nat" and ?h = "\<lambda>i::nat. 1::nat"
  have "fst (generate db ?req ?g) = Inr (projr (fst (generate db ?req ?g)))"
    by (simp add: generate_default)
  moreover have "fst (generate db ?req ?h) = Inr (projr (fst (generate db ?req ?h)))"
    by (simp add: generate_default)
  moreover have "name (brand (projr (fst (generate db ?req ?g)))) \<noteq>
      name (brand (projr (fst (generate db ?req ?h))))"
    by (simp add: generate_default parts_def lit_def)
  moreover have "price (product (projr (fst (generate db ?req ?g)))) \<noteq>
      price (product (projr (fst (generate db ?req ?h))))"
    by (simp add: generate_default lit_def)
  ultimately show "\<exists>req g h r r'.
      fst (generate db req g) = Inr r \<and> fst (generate db req h) = Inr r' \<and>
      name (brand r) \<noteq> name (brand r') \<and> price (product r) \<noteq> price (product r')"
    by blast
next
  show "\<forall>req g h r r'.
      fst (generate db req g) = Inr r \<and> fst (generate db req h) = Inr r' \<longrightarrow>
      logo (brand r) = logo (brand r') \<and> title (product r) = title (product r') \<and>
      description (product r) = description (product r') \<and> ads r = ads r'"
    by (auto simp add: generate_eq Let_def split: if_splits)
qed

lemma isspace_lit_mug:
  "\<not> (\<forall>c\<in>set (lit ''mug''). isspace c)"
  "takeWhile (\<lambda>x. \<not> isspace x) (dropWhile isspace (lit ''mug'')) = lit ''mug''"
  by (simp_all add: lit_def isspace_def)

lemma capitalize_mug: "capitalize db (lit ''mug'') = lit ''Mug''"
  by (simp add: capitalize_ascii lit_def)

lemma generate_mug:
  "generate db \<lparr>idea = Some (lit ''mug'')\<rparr> g =
     (Inr \<lparr>brand = \<lparr>name = take 30 (lit ''Mug'' @ parts ! (g 0 mod 8)),
                      logo = mock_logo_url (lit ''mug'')\<rparr>,
             product = \<lparr>title = mock_title db (lit ''mug''),
                        description = mock_description (lit ''mug''),
                        price = [lit ''$19.99'', lit ''$24.99'', lit ''$29.99'',
                                 lit ''$49.99''] ! (g 1 mod 4)\<rparr>,
             ads = mock_ads (lit ''mug'')\<rparr>, \<lambda>i. g (Suc (Suc i)))"
proof -
  have base: "or_else (Some (lit ''mug'')) (lit ''cool product'') = lit ''mug''"
    by (simp add: or_else_def lit_def)
  show ?thesis
    unfolding generate_eq Let_def GenerateRequest.simps base
    using isspace_lit_mug(1)
    by (simp only: if_False isspace_lit_mug(2) capitalize_mug)
qed

theorem generate_varies_witness:
  "fst (generate latin1_db \<lparr>idea = Some (lit ''mug'')\<rparr> (\<lambda>i. 0)) = Inr
     \<lparr>brand = \<lparr>name = lit ''MugCo'', logo = mock_logo_url (lit ''mug'')\<rparr>,
      product = \<lparr>title = mock_title latin1_db (lit ''mug''), description = mock_description (lit ''mug''),
                 price = lit ''$19.99''\<rparr>,
      ads = mock_ads (lit ''mug'')\<rparr> \<and>
   fst (generate latin1_db \<lparr>idea = Some (lit ''mug'')\<rparr> (\<lambda>i. 1)) = Inr
     \<lparr>brand = \<lparr>name = lit ''MugLab'', logo = mock_logo_url (lit ''mug'')\<rparr>,
      product = \<lparr>title = mock_title latin1_db (lit ''mug''), description = mock_description (lit ''mug''),
                 price = lit ''$24.99''\<rparr>,
      ads = mock_ads (lit ''mug'')\<rparr> \<and>
   logo (brand (projr (fst (generate latin1_db \<lparr>idea = Some (lit ''mug'')\<rparr> (\<lambda>i. 0))))) =
     logo (brand (projr (fst (generate latin1_db \<lparr>idea = Some (lit ''mug'')\<rparr> (\<lambda>i. 1))))) \<and>
   ads (projr (fst (generate latin1_db \<lparr>idea = Some (lit ''mug'')\<rparr> (\<lambda>i. 0)))) =
     ads (projr (fst (generate latin1_db \<lparr>idea = Some (lit ''mug'')\<rparr> (\<lambda>i. 1))))"
proof -
  let ?req = "\<lparr>idea = Some (lit ''mug'')\<rparr>"
  have g: "fst (generate latin1_db ?req (\<lambda>i. 0)) = Inr
     \<lparr>brand = \<lparr>name = lit ''MugCo'', logo = mock_logo_url (lit ''mug'')\<rparr>,
      product = \<lparr>title = mock_title latin1_db (lit ''mug''), description = mock_description (lit ''mug''),
                 price = lit ''$19.99''\<rparr>,
      ads = mock_ads (lit ''mug'')\<rparr>"
    unfolding generate_mug by (simp add: parts_def lit_def)
  have h: "fst (generate latin1_db ?req (\<lambda>i. 1)) = Inr
     \<lparr>brand = \<lparr>name = lit ''MugLab'', logo = mock_logo_url (lit ''mug'')\<rparr>,
      product = \<lparr>title = mock_title latin1_db (lit ''mug''), description = mock_description (lit ''mug''),
                 price = lit ''$24.99''\<rparr>,
      ads = mock_ads (lit ''mug'')\<rparr>"
    unfolding generate_mug by (simp add: parts_def lit_def)
  from generate_varies [of latin1_db] have "\<forall>req g h r r'.
      fst (generate latin1_db req g) = Inr r \<and> fst (generate latin1_db req h) = Inr r' \<longrightarrow>
      logo (brand r) = logo (brand r') \<and> title (product r) = title (product r') \<and>
      description (product r) = description (product r') \<and> ads r = ads r'"
    by (rule conjunct2)
  from this g h have "logo (brand (projr (fst (generate latin1_db ?req (\<lambda>i. 0))))) =
      logo (brand (projr (fst (generate latin1_db ?req (\<lambda>i. 1))))) \<and>
    ads (projr (fst (generate latin1_db ?req (\<lambda>i. 0)))) = ads (projr (fst (generate latin1_db ?req (\<lambda>i. 1))))"
    by simp
  with g h show ?thesis
    by (intro conjI) simp_all
qed

subsection \<open>The proxy route\<close>

text \<open>
  C7. A request whose method is not \<open>POST\<close> is answered with status 405 and no body.
  A \<open>POST\<close> request whose backend call fails, because no reply arrived or because the
  reply is not JSON, is answered with status 500 and the one object
  \<^verbatim>\<open>{ error: 'backend proxy failed' }\<close>, the same for every cause.
\<close>

theorem handler_405_and_500:
  "(req_method req \<noteq> ''POST'' \<longrightarrow> handler env fetch req = \<lparr>status = 405, payload = None\<rparr>) \<and>
   (req_method req = ''POST'' \<and>
    backend_call_failed
      (fetch (js_or (BACKEND_URL env) ''http://localhost:8000/generate'')
         \<lparr>fetch_method = ''POST'', fetch_headers = [(''Content-Type'', ''application/json'')],
          fetch_body = req_body req\<rparr>) \<longrightarrow>
    handler env fetch req =
      \<lparr>status = 500, payload = Some (JObj [(''error'', JStr ''backend proxy failed'')])\<rparr>)"
  by (simp add: handler_def backend_call_failed_def proxy_failed_def
      split: fetch_outcome.splits option.splits)

theorem handler_405_and_500_witness:
  "handler \<lparr>BACKEND_URL = None\<rparr> (\<lambda>url init. Rejected) \<lparr>req_method = ''GET'', req_body = JNull\<rparr> =
     \<lparr>status = 405, payload = None\<rparr> \<and>
   handler \<lparr>BACKEND_URL = None\<rparr> (\<lambda>url init. Rejected)
       \<lparr>req_method = ''POST'', req_body = JObj [(''idea'', JStr ''mug'')]\<rparr> =
     \<lparr>status = 500, payload = Some (JObj [(''error'', JStr ''backend proxy failed'')])\<rparr> \<and>
   handler \<lparr>BACKEND_URL = None\<rparr> (\<lambda>url init. Replied 500 None)
       \<lparr>req_method = ''POST'', req_body = JObj [(''idea'', JStr '' '')]\<rparr> =
     \<lparr>status = 500, payload = Some (JObj [(''error'', JStr ''backend proxy failed'')])\<rparr>"
  using
    handler_405_and_500 [of "\<lparr>req_method = ''GET'', req_body = JNull\<rparr>" "\<lparr>BACKEND_URL = None\<rparr>"
      "\<lambda>url init. Rejected"]
    handler_405_and_500 [of "\<lparr>req_method = ''POST'', req_body = JObj [(''idea'', JStr ''mug'')]\<rparr>"
      "\<lparr>BACKEND_URL = None\<rparr>" "\<lambda>url init. Rejected"]
    handler_405_and_500 [of "\<lparr>req_method = ''POST'', req_body = JObj [(''idea'', JStr '' '')]\<rparr>"
      "\<lparr>BACKEND_URL = None\<rparr>" "\<lambda>url init. Replied 500 None"]
  by (simp add: backend_call_failed_def)

text \<open>
  C10. When the backend replies to a \<open>POST\<close> request with a body that parses as JSON,
  the route answers with status 200 and that body, whatever the status of the reply.
\<close>

theorem handler_relays_parsed_body:
  assumes "req_method req = ''POST''"
    and "fetch (js_or (BACKEND_URL env) ''http://localhost:8000/generate'')
           \<lparr>fetch_method = ''POST'', fetch_headers = [(''Content-Type'', ''application/json'')],
            fetch_body = req_body req\<rparr> = Replied st (Some data)"
  shows "handler env fetch req = \<lparr>status = 200, payload = Some data\<rparr>"
  using assms by (simp add: handler_def)

theorem handler_relays_parsed_body_witness:
  "handler \<lparr>BACKEND_URL = None\<rparr>
     (\<lambda>url init. Replied 422 (Some (JObj [(''detail'', JStr ''value is not a valid string'')])))
     \<lparr>req_method = ''POST'', req_body = JObj [(''idea'', JNum 3)]\<rparr> =
   \<lparr>status = 200, payload = Some (JObj [(''detail'', JStr ''value is not a valid string'')])\<rparr>"
  by (rule handler_relays_parsed_body) simp_all

end
